theory Spec2Isabelle
  imports Main "HOL-Library.Sublist"
begin

section \<open>Dataset commands (renku/core/commands/dataset.py)\<close>

type_synonym path = string

subsection \<open>Errors raised by the dataset commands\<close>

datatype ds_error =
    UsageError string
  | ParameterError string
  | DatasetNotFound
  | InvalidAccessToken
  | ValueError string
  | HTTPError string
  | OtherError string

subsection \<open>File filtering: \<open>_include_exclude\<close> and \<open>_filter\<close>\<close>

text \<open>
  A dataset file as \<open>_filter\<close> reads it: \<open>file_path\<close> is
  \<open>file_.full_path.relative_to(client.path)\<close>, \<open>file_creator\<close> the names of its
  creators, \<open>file_dataset\<close> the attribute \<open>_filter\<close> assigns.
\<close>

record dataset_file =
  file_path :: path
  file_added :: int
  file_creator :: "string list"
  file_dataset :: "string option"

record dataset =
  ds_name :: string
  ds_short_name :: string
  ds_files :: "dataset_file list"

text \<open>
  The loop \<open>for pattern in patterns: if file_path.match(pattern): return ...\<close>.
  \<open>PurePath.match\<close> is a library function and is taken as the parameter \<open>pmatch\<close>.
\<close>

fun match_first :: "(path \<Rightarrow> string \<Rightarrow> bool) \<Rightarrow> path \<Rightarrow> string list \<Rightarrow> bool" where
  "match_first pmatch fp [] = False"
| "match_first pmatch fp (pattern # rest) =
     (if pmatch fp pattern then True else match_first pmatch fp rest)"

text \<open>\<open>x is not None and x\<close> for a tuple of patterns.\<close>

fun given :: "string list option \<Rightarrow> bool" where
  "given None = False"
| "given (Some ps) = (ps \<noteq> [])"

fun patterns :: "string list option \<Rightarrow> string list" where
  "patterns None = []"
| "patterns (Some ps) = ps"

definition include_exclude ::
  "(path \<Rightarrow> string \<Rightarrow> bool) \<Rightarrow> path \<Rightarrow> string list option \<Rightarrow> string list option \<Rightarrow> bool" where
  "include_exclude pmatch fp incl excl =
     (if given excl \<and> match_first pmatch fp (patterns excl) then False
      else if given incl then match_first pmatch fp (patterns incl)
      else True)"

text \<open>\<open>str.split(sep)\<close> for a one-character separator.\<close>

fun split_char :: "char \<Rightarrow> string \<Rightarrow> string list" where
  "split_char sep [] = [[]]"
| "split_char sep (c # cs) =
     (if c = sep then [] # split_char sep cs
      else (case split_char sep cs of
              [] \<Rightarrow> [[c]]
            | w # ws \<Rightarrow> (c # w) # ws))"

text \<open>
  The \<open>creators\<close> argument: \<open>None\<close>, a comma-separated string, or a list or tuple
  of names. \<open>creators_names\<close> lists the elements of the set \<open>_filter\<close> builds
  (nothing for \<open>None\<close>), so that \<open>if creators:\<close> is \<open>creators_names c \<noteq> []\<close>.
\<close>

datatype creators_arg = CreatorsNone | CreatorsStr string | CreatorsSeq "string list"

fun creators_names :: "creators_arg \<Rightarrow> string list" where
  "creators_names CreatorsNone = []"
| "creators_names (CreatorsStr s) = split_char CHR '','' s"
| "creators_names (CreatorsSeq cs) = cs"

definition file_selected ::
  "(path \<Rightarrow> string \<Rightarrow> bool) \<Rightarrow> string list \<Rightarrow> string list option \<Rightarrow> string list option
     \<Rightarrow> dataset_file \<Rightarrow> bool" where
  "file_selected pmatch creators incl excl f =
     (let match = include_exclude pmatch (file_path f) incl excl
      in if creators \<noteq> [] then match \<and> set creators \<subseteq> set (file_creator f) else match)"

text \<open>\<open>not names or dataset.short_name in names\<close>.\<close>

fun dataset_selected :: "string list option \<Rightarrow> dataset \<Rightarrow> bool" where
  "dataset_selected None ds = True"
| "dataset_selected (Some ns) ds = (ns = [] \<or> ds_short_name ds \<in> set ns)"

definition dataset_records ::
  "(path \<Rightarrow> string \<Rightarrow> bool) \<Rightarrow> string list option \<Rightarrow> string list \<Rightarrow> string list option
     \<Rightarrow> string list option \<Rightarrow> dataset \<Rightarrow> dataset_file list" where
  "dataset_records pmatch names creators incl excl ds =
     (if dataset_selected names ds
      then filter (file_selected pmatch creators incl excl)
             (map (\<lambda>f. f\<lparr>file_dataset := Some (ds_name ds)\<rparr>) (ds_files ds))
      else [])"

text \<open>\<open>_filter\<close>: the records of all datasets, sorted by \<open>added\<close> (a stable sort).\<close>

definition filter_records ::
  "(path \<Rightarrow> string \<Rightarrow> bool) \<Rightarrow> dataset list \<Rightarrow> string list option \<Rightarrow> creators_arg
     \<Rightarrow> string list option \<Rightarrow> string list option \<Rightarrow> dataset_file list" where
  "filter_records pmatch datasets names creators incl excl =
     sort_key file_added
       (concat (map (dataset_records pmatch names (creators_names creators) incl excl) datasets))"

subsection \<open>\<open>add_to_dataset\<close>\<close>

text \<open>
  The two argument checks open the function; everything after them (opening the dataset,
  fetching the data, writing the metadata) is the parameter \<open>add_data\<close>, a transformer
  of the client state that may raise.
\<close>

definition add_to_dataset ::
  "('st \<Rightarrow> (ds_error + unit) \<times> 'st) \<Rightarrow> 'st \<Rightarrow> string list \<Rightarrow> string list \<Rightarrow> string
     \<Rightarrow> (ds_error + unit) \<times> 'st" where
  "add_to_dataset add_data client urls sources destination =
     (if length urls = 0 then (Inl (UsageError ''No URL is specified''), client)
      else if (sources \<noteq> [] \<or> destination \<noteq> []) \<and> length urls > 1
      then (Inl (UsageError ''Cannot add multiple URLs with --source or --destination''), client)
      else add_data client)"

subsection \<open>\<open>import_dataset\<close>: the tag made from the version\<close>

text \<open>
  Python strings are modelled as \<open>string\<close>, one \<open>char\<close> for each character; the
  character classes below are given by character codes (\<open>of_char\<close>).

  \<open>re.sub('[^a-zA-Z0-9.-_]', '_', dataset.version)\<close>: inside the brackets the regular
  expression has the ranges \<open>a-z\<close>, \<open>A-Z\<close>, \<open>0-9\<close> and \<open>.-_\<close>, the last
  one running from the full stop (code 46) to the underscore (code 95). A character outside
  the class becomes an underscore.
\<close>

definition in_range :: "char \<Rightarrow> char \<Rightarrow> char \<Rightarrow> bool" where
  "in_range lo hi c = ((of_char lo :: nat) \<le> of_char c \<and> (of_char c :: nat) \<le> of_char hi)"

definition version_class :: "char \<Rightarrow> bool" where
  "version_class c =
     (in_range CHR ''a'' CHR ''z'' c \<or> in_range CHR ''A'' CHR ''Z'' c
      \<or> in_range CHR ''0'' CHR ''9'' c \<or> in_range CHR ''.'' CHR ''_'' c)"

definition version_tag_name :: "string \<Rightarrow> string" where
  "version_tag_name version = map (\<lambda>c. if version_class c then c else CHR ''_'') version"

text \<open>
  The character set of a tag name in the words of the specification,
  \<open>[a-zA-Z0-9.\-_]+\<close>: letters, digits, full stop, hyphen and underscore, at least one
  character.
\<close>

definition spec_tag_char :: "char \<Rightarrow> bool" where
  "spec_tag_char c =
     (in_range CHR ''a'' CHR ''z'' c \<or> in_range CHR ''A'' CHR ''Z'' c
      \<or> in_range CHR ''0'' CHR ''9'' c \<or> c = CHR ''.'' \<or> c = CHR ''-'' \<or> c = CHR ''_'')"

definition spec_tag_name :: "string \<Rightarrow> bool" where
  "spec_tag_name t = (t \<noteq> [] \<and> list_all spec_tag_char t)"

text \<open>
  The end of \<open>import_dataset\<close>, once the record has been resolved to the URLs of its
  files, its name and its version (\<open>None\<close> or a string). The default short name
  (\<open>generate_default_short_name\<close>), the body of \<open>add_to_dataset\<close> and
  \<open>tag_dataset\<close> are parameters.
\<close>

fun truthy_str :: "string option \<Rightarrow> bool" where
  "truthy_str None = False"
| "truthy_str (Some s) = (s \<noteq> [])"

definition import_files ::
  "(string \<Rightarrow> string option \<Rightarrow> string)
     \<Rightarrow> (string \<Rightarrow> 'st \<Rightarrow> (ds_error + unit) \<times> 'st)
     \<Rightarrow> (string \<Rightarrow> string \<Rightarrow> string \<Rightarrow> 'st \<Rightarrow> (ds_error + unit) \<times> 'st)
     \<Rightarrow> 'st \<Rightarrow> string list \<Rightarrow> string \<Rightarrow> string \<Rightarrow> string option
     \<Rightarrow> (ds_error + unit) \<times> 'st" where
  "import_files generate_default_short_name add_data tag_dataset client file_urls short_name
       name version =
     (if file_urls \<noteq> [] then
        (let short_name' =
               (if short_name = [] then generate_default_short_name name version
                else short_name)
         in case add_to_dataset (add_data short_name') client file_urls [] [] of
              (Inl e, client') \<Rightarrow> (Inl e, client')
            | (Inr u, client') \<Rightarrow>
                (case version of
                   Some v \<Rightarrow>
                     (if v \<noteq> [] then
                        tag_dataset short_name' (version_tag_name v)
                          (''Tag '' @ v @ '' created by renku import'') client'
                      else (Inr (), client'))
                 | None \<Rightarrow> (Inr (), client')))
      else (Inr (), client))"

subsection \<open>\<open>export_dataset\<close>\<close>

text \<open>
  The client's configuration is a map from section and key to value. The collaborators of
  \<open>export_dataset\<close> are gathered in a record: loading the dataset (at the current
  state, and again inside \<open>with_commit\<close>), the provider registry, the head commit and
  the exporter's upload.
\<close>

record export_client =
  config :: "string \<times> string \<rightharpoonup> string"

record dataset_tag =
  tag_name :: string
  tag_commit :: string

record export_env =
  load_tags :: "string \<Rightarrow> dataset_tag list option"
  load_at_commit :: "string \<Rightarrow> string \<Rightarrow> bool"
  provider_known :: "string \<Rightarrow> bool"
  head_commit :: string
  exporter_export :: "string \<Rightarrow> string \<Rightarrow> bool \<Rightarrow> dataset_tag option \<Rightarrow> ds_error + string"

text \<open>\<open>next((t for t in dataset_.tags if t.name == tag), None)\<close>\<close>

fun find_tag :: "string \<Rightarrow> dataset_tag list \<Rightarrow> dataset_tag option" where
  "find_tag tag [] = None"
| "find_tag tag (t # ts) = (if tag_name t = tag then Some t else find_tag tag ts)"

text \<open>
  Tag selection: an explicit tag must exist; otherwise the callback may pick one of the
  dataset's tags. The result is the selected tag and the selected commit.
\<close>

definition select_tag ::
  "export_env \<Rightarrow> dataset_tag list \<Rightarrow> string option
     \<Rightarrow> (dataset_tag list \<Rightarrow> dataset_tag option) option
     \<Rightarrow> ds_error + (dataset_tag option \<times> string)" where
  "select_tag env tags tag handle_tag_selection_fn =
     (if truthy_str tag then
        (case find_tag (the tag) tags of
           None \<Rightarrow> Inl (ValueError (''Tag '' @ the tag @ '' not found''))
         | Some t \<Rightarrow> Inr (Some t, tag_commit t))
      else (case handle_tag_selection_fn of
              Some f \<Rightarrow>
                (if tags \<noteq> [] then
                   (case f tags of
                      Some t \<Rightarrow> Inr (Some t, tag_commit t)
                    | None \<Rightarrow> Inr (None, head_commit env))
                 else Inr (None, head_commit env))
            | None \<Rightarrow> Inr (None, head_commit env)))"

text \<open>
  The access token: the configured one, or else the one the callback returns, which is
  stored in the configuration. A missing or empty token raises InvalidAccessToken.
\<close>

definition obtain_token ::
  "export_client \<Rightarrow> string \<Rightarrow> (unit \<Rightarrow> string option) option
     \<Rightarrow> ds_error + (string \<times> export_client)" where
  "obtain_token client provider_id handle_access_token_fn =
     (case config client (provider_id, ''access_token'') of
        Some access_token \<Rightarrow> Inr (access_token, client)
      | None \<Rightarrow>
          (let access_token =
                 (case handle_access_token_fn of None \<Rightarrow> None | Some f \<Rightarrow> f ())
           in case access_token of
                None \<Rightarrow> Inl InvalidAccessToken
              | Some t \<Rightarrow>
                  if length t = 0 then Inl InvalidAccessToken
                  else Inr (t, client\<lparr>config :=
                              (config client)((provider_id, ''access_token'') \<mapsto> t)\<rparr>)))"

text \<open>
  The upload and its error handler: \<open>'unauthorized' in str(e)\<close> is a substring test on
  the message of the HTTPError; any other exception passes through untouched.
\<close>

definition upload ::
  "export_env \<Rightarrow> export_client \<Rightarrow> string \<Rightarrow> string \<Rightarrow> bool \<Rightarrow> dataset_tag option
     \<Rightarrow> (ds_error + string) \<times> export_client" where
  "upload env client provider_id access_token publish selected_tag =
     (case exporter_export env provider_id access_token publish selected_tag of
        Inr destination \<Rightarrow> (Inr (''Exported to: '' @ destination), client)
      | Inl (HTTPError e) \<Rightarrow>
          (if sublist ''unauthorized'' e
           then (Inl (HTTPError e),
                 client\<lparr>config := (config client)((provider_id, ''access_token'') := None)\<rparr>)
           else (Inl (HTTPError e), client))
      | Inl other \<Rightarrow> (Inl other, client))"

definition export_dataset ::
  "export_env \<Rightarrow> export_client \<Rightarrow> string \<Rightarrow> string \<Rightarrow> bool \<Rightarrow> string option
     \<Rightarrow> (unit \<Rightarrow> string option) option
     \<Rightarrow> (dataset_tag list \<Rightarrow> dataset_tag option) option
     \<Rightarrow> (ds_error + string) \<times> export_client" where
  "export_dataset env client ident provider_id publish tag handle_access_token_fn
       handle_tag_selection_fn =
     (case load_tags env ident of
        None \<Rightarrow> (Inl DatasetNotFound, client)
      | Some tags \<Rightarrow>
          if \<not> provider_known env provider_id
          then (Inl (ValueError ''Unknown provider.''), client)
          else
            (case select_tag env tags tag handle_tag_selection_fn of
               Inl e \<Rightarrow> (Inl e, client)
             | Inr (selected_tag, selected_commit) \<Rightarrow>
                 if \<not> load_at_commit env selected_commit ident
                 then (Inl DatasetNotFound, client)
                 else
                   (case obtain_token client provider_id handle_access_token_fn of
                      Inl e \<Rightarrow> (Inl e, client)
                    | Inr (access_token, client') \<Rightarrow>
                        upload env client' provider_id access_token publish selected_tag)))"

section \<open>Provenance agents (renku/core/models/provenance/agents.py)\<close>

text \<open>
  \<open>string.punctuation\<close>, \<open>string.whitespace\<close> and \<open>string.printable\<close> of the
  Python library, by character code: the punctuation characters are the codes 33 to 47,
  58 to 64, 91 to 96 and 123 to 126; the whitespace characters are the space and the codes
  9 to 13; the printable characters are the digits, the ASCII letters, the punctuation and
  the whitespace.
\<close>

definition code :: "char \<Rightarrow> nat" where
  "code c = of_char c"

definition punctuation :: "char \<Rightarrow> bool" where
  "punctuation c =
     ((33 \<le> code c \<and> code c \<le> 47) \<or> (58 \<le> code c \<and> code c \<le> 64)
      \<or> (91 \<le> code c \<and> code c \<le> 96) \<or> (123 \<le> code c \<and> code c \<le> 126))"

definition whitespace :: "char \<Rightarrow> bool" where
  "whitespace c = (code c = 32 \<or> (9 \<le> code c \<and> code c \<le> 13))"

definition printable :: "char \<Rightarrow> bool" where
  "printable c =
     ((48 \<le> code c \<and> code c \<le> 57) \<or> (97 \<le> code c \<and> code c \<le> 122)
      \<or> (65 \<le> code c \<and> code c \<le> 90) \<or> punctuation c \<or> whitespace c)"

text \<open>
  \<open>str.lower\<close> and the separators of \<open>str.split()\<close> on ASCII characters: the
  upper-case letters move by 32; the separators are the space, the codes 9 to 13 and the
  codes 28 to 31. Both are applied to the name only after the printable filter, which
  keeps ASCII characters only.
\<close>

definition lower_char :: "char \<Rightarrow> char" where
  "lower_char c = (if 65 \<le> code c \<and> code c \<le> 90 then char_of (code c + 32) else c)"

definition lower :: "string \<Rightarrow> string" where
  "lower s = map lower_char s"

definition isspace :: "char \<Rightarrow> bool" where
  "isspace c = (code c = 32 \<or> (9 \<le> code c \<and> code c \<le> 13) \<or> (28 \<le> code c \<and> code c \<le> 31))"

text \<open>
  \<open>str.split()\<close> with no argument: runs of separators split the string and empty words are
  dropped. \<open>word\<close> is the word being read.
\<close>

fun split_words :: "string \<Rightarrow> string \<Rightarrow> string list" where
  "split_words word [] = (if word = [] then [] else [word])"
| "split_words word (c # cs) =
     (if isspace c then (if word = [] then split_words [] cs else word # split_words [] cs)
      else split_words (word @ [c]) cs)"

definition split :: "string \<Rightarrow> string list" where
  "split s = split_words [] s"

text \<open>
  A Person. The email is \<open>None\<close> or a string; the identifier and the label may be given
  to the constructor, and otherwise take their defaults.
\<close>

record person =
  person_name :: string
  person_email :: "string option"
  person_label :: string
  person_affiliation :: "string option"
  person_alternate_name :: "string option"
  person_id :: string

definition default_id :: "string \<Rightarrow> string option \<Rightarrow> string" where
  "default_id name email =
     (if truthy_str email then ''mailto:'' @ the email
      else (let name1 = filter (\<lambda>c. \<not> punctuation c) name;
                name2 = filter printable name1
            in ''_:'' @ concat (split (lower name2))))"

definition default_label :: "string \<Rightarrow> string" where
  "default_label name = name"

text \<open>
  \<open>re.match(r'[^@]+@[^@]+\.[^@]+', value)\<close> matches at the start of the value: a
  non-empty run without \<open>@\<close>, an \<open>@\<close>, and in the run without \<open>@\<close> that follows a full
  stop that is neither its first nor its last character.
\<close>

definition email_match :: "string \<Rightarrow> bool" where
  "email_match v =
     (let not_at = (\<lambda>c. c \<noteq> CHR ''@'');
          local_part = takeWhile not_at v;
          rest = dropWhile not_at v
      in local_part \<noteq> [] \<and> rest \<noteq> [] \<and>
         CHR ''.'' \<in> set (tl (butlast (takeWhile not_at (tl rest)))))"

definition check_email :: "string option \<Rightarrow> bool" where
  "check_email email = (truthy_str email \<longrightarrow> email_match (the email))"

text \<open>
  The constructor: defaults, then the validator, then \<open>__attrs_post_init__\<close>, which
  recomputes an identifier that was set to \<open>mailto:None\<close>.
\<close>

definition Person ::
  "string \<Rightarrow> string option \<Rightarrow> string option \<Rightarrow> string option \<Rightarrow> ds_error + person" where
  "Person name email label ident =
     (let p = \<lparr>person_name = name, person_email = email,
                person_label = (case label of None \<Rightarrow> default_label name | Some l \<Rightarrow> l),
                person_affiliation = None, person_alternate_name = None,
                person_id = (case ident of None \<Rightarrow> default_id name email | Some i \<Rightarrow> i)\<rparr>
      in if \<not> check_email email then Inl (ValueError ''Email address is invalid.'')
         else if person_id p = ''mailto:None''
         then Inr (p\<lparr>person_id := default_id name email\<rparr>)
         else Inr p)"

text \<open>
  The normalised name in the words of the specification: the characters of the name that
  are printable and are neither punctuation nor whitespace, in lower case, after the
  prefix \<open>_:\<close>.
\<close>

definition spec_name_token :: "string \<Rightarrow> string" where
  "spec_name_token name =
     ''_:'' @ map lower_char
               (filter (\<lambda>c. printable c \<and> \<not> punctuation c \<and> \<not> whitespace c) name)"

section \<open>Git wrapper (renku/core/management/git.py)\<close>

subsection \<open>The repository\<close>

text \<open>
  The Git repository behind \<open>self.repo\<close>, as far as \<open>GitCore.commit\<close> reads and
  writes it. A tree is an association list from paths to file contents, read with
  \<open>map_of\<close>. \<open>head\<close> is the tree of the commit HEAD points to (\<open>None\<close> before the
  first commit), \<open>index\<close> the staging area, \<open>working_tree\<close> the files of the
  working directory. \<open>ctime_ms\<close> gives \<open>int(Path(file_).stat().st_ctime * 1e3)\<close>, and
  \<open>commits\<close> the commits made, newest first.

  Left out of the model: ignored files, empty directories, rename detection in diffs (every
  diff item has one path), and a current directory other than the root of the repository.
\<close>

type_synonym blob = string
type_synonym tree = "(path \<times> blob) list"

record commit_object =
  message :: string
  committer :: string
  tree :: tree

record repo =
  head :: "tree option"
  index :: tree
  working_tree :: tree
  ctime_ms :: "path \<Rightarrow> int"
  commits :: "commit_object list"

datatype git_error =
    DirtyRepository repo
  | DirtyRenkuDirectory repo
  | NothingToCommit
  | CommitMessageEmpty
  | BadName
  | IndexError
  | OperationError string

text \<open>The process: \<open>STARTED_AT\<close>, \<open>sys.argv\<close>, \<open>remove_credentials\<close> of
  \<open>renku.core.utils.urls\<close> and \<open>__version__\<close> of \<open>renku.version\<close>.\<close>

record git_env =
  STARTED_AT :: int
  argv :: "string list"
  remove_credentials :: "string \<Rightarrow> string"
  version :: string

subsection \<open>What the Git library does\<close>

definition tree_paths :: "tree \<Rightarrow> path list" where
  "tree_paths t = remdups (map fst t)"

text \<open>\<open>repo.untracked_files\<close>: the files of the working tree that the index does not have.\<close>

definition untracked_files :: "repo \<Rightarrow> path list" where
  "untracked_files r =
     filter (\<lambda>p. map_of (index r) p = None) (tree_paths (working_tree r))"

text \<open>
  A diff item is a path (\<open>a_path\<close>) with its change type \<open>'A'\<close>, \<open>'D'\<close> or \<open>'M'\<close>,
  from side a to side b.
\<close>

datatype change_type = Added | Deleted | Modified

fun diff_entry :: "blob option \<Rightarrow> blob option \<Rightarrow> change_type option" where
  "diff_entry None None = None"
| "diff_entry (Some x) None = Some Deleted"
| "diff_entry None (Some y) = Some Added"
| "diff_entry (Some x) (Some y) = (if x = y then None else Some Modified)"

fun diff_items :: "tree \<Rightarrow> tree \<Rightarrow> path list \<Rightarrow> (path \<times> change_type) list" where
  "diff_items a b [] = []"
| "diff_items a b (p # ps) =
     (case diff_entry (map_of a p) (map_of b p) of
        None \<Rightarrow> diff_items a b ps
      | Some c \<Rightarrow> (p, c) # diff_items a b ps)"

text \<open>
  \<open>repo.index.diff(None)\<close> compares the index (side a) with the working tree, on the
  paths of the index. \<open>repo.index.diff('HEAD')\<close> is the library's reverse diff, from the
  index (side a) to HEAD: a path the index has and HEAD lacks is reported as \<open>'D'\<close>. It
  raises BadName when HEAD does not resolve.
\<close>

definition index_diff_None :: "repo \<Rightarrow> (path \<times> change_type) list" where
  "index_diff_None r = diff_items (index r) (working_tree r) (tree_paths (index r))"

definition index_diff_HEAD :: "repo \<Rightarrow> git_error + (path \<times> change_type) list" where
  "index_diff_HEAD r =
     (case head r of
        None \<Rightarrow> Inl BadName
      | Some h \<Rightarrow> Inr (diff_items (index r) h (tree_paths (index r @ h))))"

text \<open>
  A path names a file, or a directory and with it every file below: \<open>under p q\<close> says
  that the file \<open>q\<close> is \<open>p\<close> or lies below \<open>p\<close>. \<open>Path(p).exists()\<close> holds when the
  working tree has such a file.
\<close>

definition under :: "path \<Rightarrow> path \<Rightarrow> bool" where
  "under p q = (q = p \<or> prefix (p @ ''/'') q)"

definition path_exists :: "repo \<Rightarrow> path \<Rightarrow> bool" where
  "path_exists r p = list_ex (under p) (tree_paths (working_tree r))"

text \<open>
  \<open>git add p\<close> makes the index agree with the working tree on every file under \<open>p\<close>,
  deletions included; \<open>git add --all\<close> does so on every file; \<open>git reset\<close> makes the
  index the tree of HEAD; \<open>repo.index.commit\<close> records the index as the new HEAD.
\<close>

definition git_add :: "path \<Rightarrow> repo \<Rightarrow> repo" where
  "git_add p r =
     r\<lparr>index := filter (\<lambda>(q, b). \<not> under p q) (index r)
                  @ filter (\<lambda>(q, b). under p q) (working_tree r)\<rparr>"

definition git_add_all :: "repo \<Rightarrow> repo" where
  "git_add_all r = r\<lparr>index := working_tree r\<rparr>"

definition git_reset :: "repo \<Rightarrow> repo" where
  "git_reset r = r\<lparr>index := (case head r of None \<Rightarrow> [] | Some h \<Rightarrow> h)\<rparr>"

definition index_commit :: "string \<Rightarrow> string \<Rightarrow> repo \<Rightarrow> repo" where
  "index_commit msg actor r =
     r\<lparr>head := Some (index r),
       commits := \<lparr>message = msg, committer = actor, tree = index r\<rparr> # commits r\<rparr>"

subsection \<open>\<open>ensure_untracked\<close> and \<open>ensure_unstaged\<close>\<close>

text \<open>\<open>str.startswith\<close> is \<open>prefix\<close>. Both checks raise the error built from the
  repository.\<close>

definition ensure_untracked :: "repo \<Rightarrow> path \<Rightarrow> git_error + unit" where
  "ensure_untracked r path =
     (if list_ex (\<lambda>file_path. prefix path file_path \<or> path = file_path) (untracked_files r)
      then Inl (DirtyRenkuDirectory r) else Inr ())"

definition ensure_unstaged :: "repo \<Rightarrow> path \<Rightarrow> git_error + unit" where
  "ensure_unstaged r path =
     (case index_diff_HEAD r of
        Inl e \<Rightarrow> Inr ()
      | Inr staged \<Rightarrow>
          if list_ex (\<lambda>file_path. prefix path file_path \<or> path = file_path) (map fst staged)
          then Inl (DirtyRenkuDirectory r) else Inr ())"

subsection \<open>\<open>GitCore.commit\<close>\<close>

text \<open>
  The \<open>commit_only\<close> argument: \<open>None\<close>, the string \<open>COMMIT_DIFF_STRATEGY\<close>, or a
  list of paths. The commit message is any Python value.
\<close>

datatype commit_only = CommitNone | COMMIT_DIFF_STRATEGY | CommitPaths "path list"

datatype pyval = PyNone | PyStr string | PyBool bool | PyInt int | PyList "pyval list"

fun truthy :: "pyval \<Rightarrow> bool" where
  "truthy PyNone = False"
| "truthy (PyStr s) = (s \<noteq> [])"
| "truthy (PyBool b) = b"
| "truthy (PyInt n) = (n \<noteq> 0)"
| "truthy (PyList xs) = (xs \<noteq> [])"

fun is_str :: "pyval \<Rightarrow> bool" where
  "is_str (PyStr s) = True"
| "is_str v = False"

fun str_of :: "pyval \<Rightarrow> string" where
  "str_of (PyStr s) = s"
| "str_of v = []"

text \<open>The loop over the listed paths before the wrapped operation.\<close>

fun ensure_paths :: "repo \<Rightarrow> path list \<Rightarrow> git_error + unit" where
  "ensure_paths r [] = Inr ()"
| "ensure_paths r (pth # rest) =
     (case ensure_untracked r pth of
        Inl e \<Rightarrow> Inl e
      | Inr u \<Rightarrow>
          (case ensure_unstaged r pth of
             Inl e \<Rightarrow> Inl e
           | Inr u \<Rightarrow> ensure_paths r rest))"

text \<open>
  The part of \<open>commit\<close> before \<open>yield\<close>. The result is \<open>diff_before\<close> and the
  repository as the wrapped operation finds it.
\<close>

definition commit_enter :: "git_env \<Rightarrow> commit_only \<Rightarrow> repo \<Rightarrow> (git_error + path list) \<times> repo" where
  "commit_enter env commit_only r =
     (case commit_only of
        COMMIT_DIFF_STRATEGY \<Rightarrow>
          (let staged = map fst (index_diff_None r)
           in case index_diff_HEAD r of
                Inl e \<Rightarrow> (Inl e, r)
              | Inr items \<Rightarrow>
                  (let modified = map fst items;
                       r' = (if staged \<noteq> [] \<or> modified \<noteq> [] then git_reset r else r)
                   in (Inr (filter (\<lambda>fl. STARTED_AT env - ctime_ms r' fl \<ge> 1000)
                              (untracked_files r')), r')))
      | CommitPaths paths \<Rightarrow>
          (case ensure_paths r paths of
             Inl e \<Rightarrow> (Inl e, r)
           | Inr u \<Rightarrow> (Inr [], r))
      | CommitNone \<Rightarrow> (Inr [], r))"

text \<open>
  After the operation, under the diff strategy: the change types (the staged ones
  override the others, as \<open>dict.update\<close> does) and the new \<open>commit_only\<close>,
  \<open>list(diff_after - diff_before)\<close>.
\<close>

definition diff_commit_only ::
  "path list \<Rightarrow> repo \<Rightarrow> git_error + (path list \<times> (path \<rightharpoonup> change_type))" where
  "diff_commit_only diff_before r =
     (let change_types = index_diff_None r;
          staged_after = map fst change_types
      in case index_diff_HEAD r of
           Inl e \<Rightarrow> Inl e
         | Inr modified_after_change_types \<Rightarrow>
             (let modified_after = map fst modified_after_change_types;
                  diff_after = remdups (untracked_files r @ staged_after @ modified_after)
              in Inr (filter (\<lambda>p. p \<notin> set diff_before) diff_after,
                      map_of (modified_after_change_types @ change_types))))"

text \<open>The loop \<open>for path_ in commit_only: if p.exists() or ...: self.repo.git.add(path_)\<close>.\<close>

fun add_paths :: "(path \<rightharpoonup> change_type) \<Rightarrow> path list \<Rightarrow> repo \<Rightarrow> repo" where
  "add_paths change_types [] r = r"
| "add_paths change_types (pth # rest) r =
     add_paths change_types rest
       (if path_exists r pth \<or> change_types pth = Some Deleted then git_add pth r
        else r)"

text \<open>
  The part of \<open>commit\<close> from \<open>yield\<close> to the staging: the repository whose index is
  about to be committed. \<open>not commit_only\<close> holds for \<open>None\<close> and for the empty list.
\<close>

definition commit_stage :: "commit_only \<Rightarrow> path list \<Rightarrow> repo \<Rightarrow> git_error + repo" where
  "commit_stage commit_only diff_before r =
     (case commit_only of
        COMMIT_DIFF_STRATEGY \<Rightarrow>
          (case diff_commit_only diff_before r of
             Inl e \<Rightarrow> Inl e
           | Inr (paths, change_types) \<Rightarrow>
               (let r' = add_paths change_types paths r
                in Inr (if paths = [] then git_add_all r' else r')))
      | CommitPaths paths \<Rightarrow>
          (let r' = add_paths Map.empty paths r
           in Inr (if paths = [] then git_add_all r' else r'))
      | CommitNone \<Rightarrow> Inr (git_add_all r))"

text \<open>\<open>os.path.basename\<close> and \<open>' '.join\<close>.\<close>

definition basename :: "string \<Rightarrow> string" where
  "basename p = rev (takeWhile (\<lambda>c. c \<noteq> CHR ''/'') (rev p))"

fun join_spaces :: "string list \<Rightarrow> string" where
  "join_spaces [] = []"
| "join_spaces [w] = w"
| "join_spaces (w # ws) = w @ '' '' @ join_spaces ws"

text \<open>The commit message: lines 308 to 315.\<close>

definition resolve_message :: "git_env \<Rightarrow> pyval \<Rightarrow> git_error + string" where
  "resolve_message env commit_message =
     (if truthy commit_message \<and> \<not> is_str commit_message then Inl CommitMessageEmpty
      else if \<not> truthy commit_message then
        (case argv env of
           [] \<Rightarrow> Inl IndexError
         | argv0 # args \<Rightarrow>
             Inr (join_spaces (basename argv0 # map (remove_credentials env) args)))
      else Inr (str_of commit_message))"

text \<open>The part of \<open>commit\<close> after the staging: the empty-commit policy, the message, the
  commit.\<close>

definition commit_finish ::
  "git_env \<Rightarrow> bool \<Rightarrow> bool \<Rightarrow> pyval \<Rightarrow> repo \<Rightarrow> (git_error + unit) \<times> repo" where
  "commit_finish env commit_empty raise_if_empty commit_message r =
     (case (if \<not> commit_empty
            then (case index_diff_HEAD r of Inl e \<Rightarrow> Inl e | Inr items \<Rightarrow> Inr (items = []))
            else Inr False) of
        Inl e \<Rightarrow> (Inl e, r)
      | Inr True \<Rightarrow> (if raise_if_empty then (Inl NothingToCommit, r) else (Inr (), r))
      | Inr False \<Rightarrow>
          (case resolve_message env commit_message of
             Inl e \<Rightarrow> (Inl e, r)
           | Inr m \<Rightarrow> (Inr (), index_commit m (''renku '' @ version env) r)))"

text \<open>
  \<open>commit\<close> as a context manager around the wrapped operation: an exception before
  \<open>yield\<close> or in the operation ends the run there.
\<close>

definition commit ::
  "git_env \<Rightarrow> commit_only \<Rightarrow> bool \<Rightarrow> bool \<Rightarrow> pyval \<Rightarrow> (repo \<Rightarrow> (git_error + unit) \<times> repo)
     \<Rightarrow> repo \<Rightarrow> (git_error + unit) \<times> repo" where
  "commit env commit_only commit_empty raise_if_empty commit_message operation r =
     (case commit_enter env commit_only r of
        (Inl e, r1) \<Rightarrow> (Inl e, r1)
      | (Inr diff_before, r1) \<Rightarrow>
          (case operation r1 of
             (Inl e, r2) \<Rightarrow> (Inl e, r2)
           | (Inr u, r2) \<Rightarrow>
               (case commit_stage commit_only diff_before r2 of
                  Inl e \<Rightarrow> (Inl e, r2)
                | Inr r3 \<Rightarrow>
                    commit_finish env commit_empty raise_if_empty commit_message r3)))"

subsection \<open>\<open>GitCore.worktree\<close>\<close>

text \<open>
  For the worktree manager the repository is its list of linked working trees and its
  list of local branches. \<open>tempfile.mkdtemp()\<close> and \<open>uuid.uuid4().hex\<close> are values of
  the environment, and so is the outcome of the merge on the histories, which are not
  modelled: \<open>merge_clean\<close> says whether \<open>git merge\<close> of the branch with the given
  arguments goes through. The rerouting of the standard streams, the change of directory
  and \<open>checkout_paths_from_storage\<close> do not touch the two lists and are left out.
\<close>

record worktree_repo =
  worktrees :: "path list"
  branches :: "string list"

datatype worktree_error =
    GitCommandError string
  | FailedMerge worktree_repo string "string list"
  | OperationFailed string


text \<open>
  The \<open>commit\<close> argument: \<open>None\<close>, the constant \<open>NULL_TREE\<close>, or a revision. A
  revision only says where the new branch starts, which the two lists do not record.
\<close>

datatype commit_arg = NoCommit | NULL_TREE | Revision string











section \<open>Example inputs\<close>

definition ex_file_a :: dataset_file where
  "ex_file_a = \<lparr>file_path = ''data/a.txt'', file_added = 1, file_creator = [''Bob''],
                 file_dataset = None\<rparr>"

definition ex_file_b :: dataset_file where
  "ex_file_b = \<lparr>file_path = ''data/b.csv'', file_added = 2,
                 file_creator = [''Alice'', ''Bob''], file_dataset = None\<rparr>"

definition ex_dataset :: dataset where
  "ex_dataset = \<lparr>ds_name = ''My data'', ds_short_name = ''mydata'',
                  ds_files = [ex_file_b, ex_file_a]\<rparr>"

definition ex_export_env :: export_env where
  "ex_export_env =
     \<lparr>load_tags = (\<lambda>i. if i = ''ds'' then Some [] else None),
      load_at_commit = (\<lambda>c i. True),
      provider_known = (\<lambda>p. p = ''zenodo''),
      head_commit = ''c0ffee'',
      exporter_export = (\<lambda>p token publish t.
         if token = ''stale'' then Inl (HTTPError ''401 Client Error: unauthorized'')
         else Inl (HTTPError ''500 Server Error''))\<rparr>"

definition ex_export_client :: "string \<Rightarrow> export_client" where
  "ex_export_client token = \<lparr>config = [(''zenodo'', ''access_token'') \<mapsto> token]\<rparr>"

definition ex_env :: git_env where
  "ex_env = \<lparr>STARTED_AT = 5000,
             argv = [''/usr/bin/renku'', ''dataset'', ''add'', ''https://user:pw@host/f''],
             remove_credentials =
               (\<lambda>a. if a = ''https://user:pw@host/f'' then ''https://host/f'' else a),
             version = ''0.9.1''\<rparr>"

definition ex_repo :: "tree \<Rightarrow> repo" where
  "ex_repo wt =
     \<lparr>head = Some [(''README'', ''hello'')], index = [(''README'', ''hello'')],
      working_tree = wt, ctime_ms = (\<lambda>p. 0),
      commits = [\<lparr>message = ''init'', committer = ''me'', tree = [(''README'', ''hello'')]\<rparr>]\<rparr>"

definition op_create :: "repo \<Rightarrow> (git_error + unit) \<times> repo" where
  "op_create r = (Inr (), r\<lparr>working_tree := (''data/new.csv'', ''1,2'') # working_tree r\<rparr>)"

definition op_noop :: "repo \<Rightarrow> (git_error + unit) \<times> repo" where
  "op_noop r = (Inr (), r)"





section \<open>Properties of the dataset commands and of the agents\<close>
lemma match_first_iff: "match_first pmatch fp ps \<longleftrightarrow> (\<exists>p \<in> set ps. pmatch fp p)"
  by (induction ps) auto

lemma include_exclude_excluded:
  "excl = Some ex \<Longrightarrow> pat \<in> set ex \<Longrightarrow> pmatch fp pat \<Longrightarrow> \<not> include_exclude pmatch fp incl excl"
  by (auto simp: include_exclude_def match_first_iff)

lemma include_exclude_no_include:
  "\<not> given incl \<Longrightarrow>
     include_exclude pmatch fp incl excl \<longleftrightarrow> \<not> match_first pmatch fp (patterns excl)"
  by (cases excl) (auto simp: include_exclude_def)

lemma set_filter_records:
  "set (filter_records pmatch dss names creators incl excl) =
     (\<Union>ds \<in> set dss. set (dataset_records pmatch names (creators_names creators) incl excl ds))"
  by (simp add: filter_records_def)

text \<open>
  C10 (amended). Exclude patterns win over include patterns: no record returned by
  \<open>_filter\<close> has a path matching an exclude pattern, whatever the include patterns
  and the creators are. When no include pattern is given and no creator filter is in force,
  the records are exactly the files of the selected datasets (all datasets when no name is
  given) whose path matches no exclude pattern, each tagged with its dataset's name.
\<close>

theorem filter_exclude_precedence:
  "(\<forall>f \<in> set (filter_records pmatch dss names creators incl excl).
      \<not> (\<exists>pat \<in> set (patterns excl). pmatch (file_path f) pat))
   \<and> (\<not> given incl \<and> creators_names creators = [] \<longrightarrow>
        set (filter_records pmatch dss names creators incl excl) =
          {f\<lparr>file_dataset := Some (ds_name ds)\<rparr> | f ds.
             ds \<in> set dss \<and> dataset_selected names ds \<and> f \<in> set (ds_files ds) \<and>
             \<not> (\<exists>pat \<in> set (patterns excl). pmatch (file_path f) pat)})"
proof (intro conjI ballI impI)
  fix f
  assume "f \<in> set (filter_records pmatch dss names creators incl excl)"
  then obtain ds where
    "f \<in> set (dataset_records pmatch names (creators_names creators) incl excl ds)"
    by (auto simp: set_filter_records)
  then have "include_exclude pmatch (file_path f) incl excl"
    by (auto simp: dataset_records_def file_selected_def Let_def split: if_splits)
  then show "\<not> (\<exists>pat \<in> set (patterns excl). pmatch (file_path f) pat)"
    by (cases excl) (auto simp: include_exclude_def match_first_iff split: if_splits)
next
  assume h: "\<not> given incl \<and> creators_names creators = []"
  then have sel: "\<And>f. file_selected pmatch (creators_names creators) incl excl f
      \<longleftrightarrow> \<not> (\<exists>pat \<in> set (patterns excl). pmatch (file_path f) pat)"
    by (simp add: file_selected_def include_exclude_no_include match_first_iff)
  show "set (filter_records pmatch dss names creators incl excl) =
          {f\<lparr>file_dataset := Some (ds_name ds)\<rparr> | f ds.
             ds \<in> set dss \<and> dataset_selected names ds \<and> f \<in> set (ds_files ds) \<and>
             \<not> (\<exists>pat \<in> set (patterns excl). pmatch (file_path f) pat)}"
    unfolding set_filter_records dataset_records_def sel
    by (auto split: if_splits) blast
qed

theorem filter_exclude_precedence_witness:
  "filter_records (=) [ex_dataset] (Some [''mydata'']) CreatorsNone
      (Some [''data/a.txt'', ''data/b.csv'']) (Some [''data/b.csv''])
     = [ex_file_a\<lparr>file_dataset := Some ''My data''\<rparr>]
   \<and> set (filter_records (=) [ex_dataset] (Some [''mydata'']) CreatorsNone None
            (Some [''data/b.csv'']))
     = {ex_file_a\<lparr>file_dataset := Some ''My data''\<rparr>}"
  using filter_exclude_precedence [of "(=)" "[ex_dataset]" "Some [''mydata'']" CreatorsNone
      None "Some [''data/b.csv'']"]
  by (simp add: filter_records_def dataset_records_def file_selected_def include_exclude_def
      ex_dataset_def ex_file_a_def ex_file_b_def)

text \<open>
  C10 as stated fails when a creator filter is given: with no include and no exclude
  pattern, the file \<open>data/a.txt\<close> of the named dataset is not excluded, yet asking for
  the creator Alice leaves it out of the records.
\<close>

theorem filter_creators_counterexample:
  "include_exclude (=) (file_path ex_file_a) None None
   \<and> dataset_selected (Some [''mydata'']) ex_dataset
   \<and> ex_file_a \<in> set (ds_files ex_dataset)
   \<and> filter_records (=) [ex_dataset] (Some [''mydata'']) (CreatorsSeq [''Alice'']) None None
        = [ex_file_b\<lparr>file_dataset := Some ''My data''\<rparr>]"
  by (simp add: filter_records_def dataset_records_def file_selected_def include_exclude_def
      ex_dataset_def ex_file_a_def ex_file_b_def)

text \<open>
  C6. \<open>add_to_dataset\<close> raises a UsageError and leaves the client state as it was,
  whatever the rest of the function would do, when the list of URLs is empty, and when more
  than one URL comes with sources or with a destination.
\<close>

theorem add_to_dataset_usage_error:
  "(urls = [] \<longrightarrow>
      add_to_dataset add_data client urls sources destination
        = (Inl (UsageError ''No URL is specified''), client))
   \<and> (length urls > 1 \<and> (sources \<noteq> [] \<or> destination \<noteq> []) \<longrightarrow>
      add_to_dataset add_data client urls sources destination
        = (Inl (UsageError ''Cannot add multiple URLs with --source or --destination''),
           client))"
  by (auto simp: add_to_dataset_def)

theorem add_to_dataset_usage_error_witness:
  "add_to_dataset (\<lambda>c. (Inr (), Suc c)) (0::nat) [] [] ''''
      = (Inl (UsageError ''No URL is specified''), 0)
   \<and> add_to_dataset (\<lambda>c. (Inr (), Suc c)) (0::nat) [''u1'', ''u2''] [''src''] ''''
      = (Inl (UsageError ''Cannot add multiple URLs with --source or --destination''), 0)
   \<and> add_to_dataset (\<lambda>c. (Inr (), Suc c)) (0::nat) [''u1'', ''u2''] [] ''dst''
      = (Inl (UsageError ''Cannot add multiple URLs with --source or --destination''), 0)"
  using add_to_dataset_usage_error [of "[]" "\<lambda>c. (Inr (), Suc c)" "0::nat" "[]" "''''"]
    add_to_dataset_usage_error
      [of "[''u1'', ''u2'']" "\<lambda>c. (Inr (), Suc c)" "0::nat" "[''src'']" "''''"]
    add_to_dataset_usage_error
      [of "[''u1'', ''u2'']" "\<lambda>c. (Inr (), Suc c)" "0::nat" "[]" "''dst''"]
  by simp

lemma concat_split_words: "concat (split_words word s) = word @ filter (\<lambda>c. \<not> isspace c) s"
  by (induction s arbitrary: word) auto

lemma code_lower_char:
  "code (lower_char c) = (if 65 \<le> code c \<and> code c \<le> 90 then code c + 32 else code c)"
  by (simp add: lower_char_def code_def)

lemma isspace_lower_char: "isspace (lower_char c) = isspace c"
  unfolding isspace_def code_lower_char by auto

lemma printable_isspace: "printable c \<Longrightarrow> isspace c = whitespace c"
  by (auto simp: printable_def isspace_def whitespace_def punctuation_def)

lemma default_id_name: "\<not> truthy_str email \<Longrightarrow> default_id name email = spec_name_token name"
proof -
  assume "\<not> truthy_str email"
  have "filter (\<lambda>c. \<not> isspace c) (filter printable (filter (\<lambda>c. \<not> punctuation c) name))
        = filter (\<lambda>c. printable c \<and> \<not> punctuation c \<and> \<not> whitespace c) name"
    by (induction name) (auto simp: printable_isspace)
  then have "concat (split (lower (filter printable (filter (\<lambda>c. \<not> punctuation c) name))))
        = map lower_char (filter (\<lambda>c. printable c \<and> \<not> punctuation c \<and> \<not> whitespace c) name)"
    by (simp add: split_def lower_def concat_split_words filter_map comp_def isspace_lower_char)
  with \<open>\<not> truthy_str email\<close> show ?thesis
    by (simp add: default_id_def spec_name_token_def Let_def)
qed

text \<open>
  C9. A Person constructed without an explicit identifier gets \<open>mailto:\<close> followed by the
  email when an email is present (a non-empty string), and otherwise the name-based token:
  the prefix \<open>_:\<close> and the characters of the name that are printable and are neither
  punctuation nor whitespace, in lower case. Without an explicit label, the label is the
  name.
\<close>

theorem person_default_id_label:
  assumes "Person name email label None = Inr p"
  shows "(truthy_str email \<longrightarrow> person_id p = ''mailto:'' @ the email)
       \<and> (\<not> truthy_str email \<longrightarrow> person_id p = spec_name_token name)
       \<and> (label = None \<longrightarrow> person_label p = name)"
proof -
  have id: "person_id p = default_id name email"
    using assms by (auto simp: Person_def Let_def split: if_splits)
  have lab: "label = None \<longrightarrow> person_label p = name"
    using assms by (auto simp: Person_def Let_def default_label_def split: if_splits)
  show ?thesis
    using id lab default_id_name [of email name] by (auto simp: default_id_def)
qed

theorem person_default_id_label_witness:
  "(\<exists>p. Person ''Dr. Jane  O-Neil'' None None None = Inr p \<and> person_id p = ''_:drjaneoneil''
        \<and> person_label p = ''Dr. Jane  O-Neil'')
   \<and> (\<exists>p. Person ''John Doe'' (Some ''john.doe@mail.ch'') None None = Inr p
        \<and> person_id p = ''mailto:john.doe@mail.ch'' \<and> person_label p = ''John Doe'')"
proof -
  have a: "Person ''Dr. Jane  O-Neil'' None None None =
      Inr \<lparr>person_name = ''Dr. Jane  O-Neil'', person_email = None,
           person_label = ''Dr. Jane  O-Neil'', person_affiliation = None,
           person_alternate_name = None, person_id = ''_:drjaneoneil''\<rparr>"
    by code_simp
  have b: "Person ''John Doe'' (Some ''john.doe@mail.ch'') None None =
      Inr \<lparr>person_name = ''John Doe'', person_email = Some ''john.doe@mail.ch'',
           person_label = ''John Doe'', person_affiliation = None,
           person_alternate_name = None, person_id = ''mailto:john.doe@mail.ch''\<rparr>"
    by code_simp
  show ?thesis
    using person_default_id_label [OF a] person_default_id_label [OF b] a b by simp
qed

text \<open>
  C8. The version \<open>1.0/rc:2\<close> of an imported record with one file: the substitution
  leaves the slash and the colon in place, since both lie in the range from the full stop
  to the underscore, so the tag name handed to \<open>tag_dataset\<close> after the files are added
  is outside the character set of tag names.
\<close>

theorem import_tag_name_outside_charset:
  "version_tag_name ''1.0/rc:2'' = ''1.0/rc:2''
   \<and> \<not> spec_tag_name (version_tag_name ''1.0/rc:2'')
   \<and> import_files (\<lambda>n v. n)
        (\<lambda>sn c. (Inr (), c @ [''add '' @ sn]))
        (\<lambda>sn t d c. (Inr (), c @ [''tag '' @ sn @ '' '' @ t]))
        [] [''https://host/f.csv''] ''ds'' ''Data'' (Some ''1.0/rc:2'')
      = (Inr (), [''add ds'', ''tag ds 1.0/rc:2''])"
  by (simp add: version_tag_name_def version_class_def in_range_def spec_tag_name_def
      spec_tag_char_def import_files_def add_to_dataset_def)

text \<open>
  C7. When the export reaches the upload and the upload raises an HTTPError, the same error
  comes out of \<open>export_dataset\<close>. The access token is in the configuration at that
  point; it is removed when the message of the error contains \<open>unauthorized\<close>, and the
  client is left as it is for any other HTTPError.
\<close>

theorem export_unauthorized_purges_token:
  assumes "load_tags env ident = Some tags"
    and "provider_known env provider_id"
    and "select_tag env tags tag handle_tag_selection_fn = Inr (selected_tag, selected_commit)"
    and "load_at_commit env selected_commit ident"
    and "obtain_token client provider_id handle_access_token_fn = Inr (access_token, client')"
    and "exporter_export env provider_id access_token publish selected_tag = Inl (HTTPError e)"
  shows "config client' (provider_id, ''access_token'') = Some access_token
       \<and> export_dataset env client ident provider_id publish tag handle_access_token_fn
            handle_tag_selection_fn
          = (Inl (HTTPError e),
             if sublist ''unauthorized'' e
             then client'\<lparr>config := (config client')((provider_id, ''access_token'') := None)\<rparr>
             else client')"
proof -
  have "config client' (provider_id, ''access_token'') = Some access_token"
    using assms(5)
    by (auto simp: obtain_token_def Let_def split: option.splits if_splits)
  moreover have "export_dataset env client ident provider_id publish tag handle_access_token_fn
            handle_tag_selection_fn
          = upload env client' provider_id access_token publish selected_tag"
    using assms(1-5) by (simp add: export_dataset_def)
  ultimately show ?thesis
    using assms(6) by (simp add: upload_def)
qed

theorem export_unauthorized_purges_token_witness:
  "fst (export_dataset ex_export_env (ex_export_client ''stale'') ''ds'' ''zenodo'' False None
          None None) = Inl (HTTPError ''401 Client Error: unauthorized'')
   \<and> config (snd (export_dataset ex_export_env (ex_export_client ''stale'') ''ds'' ''zenodo''
          False None None None)) (''zenodo'', ''access_token'') = None
   \<and> fst (export_dataset ex_export_env (ex_export_client ''fresh'') ''ds'' ''zenodo'' False None
          None None) = Inl (HTTPError ''500 Server Error'')
   \<and> config (snd (export_dataset ex_export_env (ex_export_client ''fresh'') ''ds'' ''zenodo''
          False None None None)) (''zenodo'', ''access_token'') = Some ''fresh''"
proof -
  have 1: "load_tags ex_export_env ''ds'' = Some []"
    and 2: "provider_known ex_export_env ''zenodo''"
    and 3: "select_tag ex_export_env [] None None = Inr (None, ''c0ffee'')"
    and 4: "load_at_commit ex_export_env ''c0ffee'' ''ds''"
    by (simp_all add: ex_export_env_def select_tag_def)
  have 5: "obtain_token (ex_export_client t) ''zenodo'' None = Inr (t, ex_export_client t)" for t
    by (simp add: obtain_token_def ex_export_client_def)
  have 6: "exporter_export ex_export_env ''zenodo'' ''stale'' False None
             = Inl (HTTPError ''401 Client Error: unauthorized'')"
    and 7: "exporter_export ex_export_env ''zenodo'' ''fresh'' False None
             = Inl (HTTPError ''500 Server Error'')"
    by (simp_all add: ex_export_env_def)
  have 8: "sublist ''unauthorized'' ''401 Client Error: unauthorized''"
    and 9: "\<not> sublist ''unauthorized'' ''500 Server Error''"
    by code_simp+
  show ?thesis
    using export_unauthorized_purges_token [OF 1 2 3 4 5 6]
      export_unauthorized_purges_token [OF 1 2 3 4 5 7] 8 9
    by (simp add: ex_export_client_def)
qed

section \<open>Properties of the Git wrapper\<close>

lemma in_tree_paths: "p \<in> set (tree_paths t) \<longleftrightarrow> map_of t p \<noteq> None"
  by (simp add: tree_paths_def map_of_eq_None_iff)

lemma distinct_tree_paths: "distinct (tree_paths t)"
  by (simp add: tree_paths_def)

lemma set_untracked_files:
  "set (untracked_files r) = {p. map_of (working_tree r) p \<noteq> None \<and> map_of (index r) p = None}"
  by (auto simp: untracked_files_def in_tree_paths)

lemma diff_entry_None_iff: "diff_entry a b = None \<longleftrightarrow> a = b"
  by (cases a; cases b) auto

lemma diff_entry_same [simp]: "diff_entry a a = None"
  by (simp add: diff_entry_None_iff)

lemma diff_entry_Deleted_iff: "diff_entry a b = Some Deleted \<longleftrightarrow> a \<noteq> None \<and> b = None"
  by (cases a; cases b) auto

lemma set_diff_items:
  "set (diff_items a b paths) =
     {(p, c). p \<in> set paths \<and> diff_entry (map_of a p) (map_of b p) = Some c}"
  by (induction paths) (auto split: option.splits)

lemma fst_set_diff_items:
  "fst ` set (diff_items a b paths) = {p \<in> set paths. map_of a p \<noteq> map_of b p}"
proof -
  have "fst ` set (diff_items a b paths)
          = {p \<in> set paths. diff_entry (map_of a p) (map_of b p) \<noteq> None}"
    by (force simp: set_diff_items)
  then show ?thesis by (simp add: diff_entry_None_iff)
qed

lemma diff_items_Nil_iff:
  "diff_items a b paths = [] \<longleftrightarrow> (\<forall>p \<in> set paths. map_of a p = map_of b p)"
proof -
  have "diff_items a b paths = [] \<longleftrightarrow> fst ` set (diff_items a b paths) = {}"
    by simp
  then show ?thesis unfolding fst_set_diff_items by auto
qed

lemma map_of_diff_items:
  "map_of (diff_items a b paths) p =
     (if p \<in> set paths then diff_entry (map_of a p) (map_of b p) else None)"
  by (induction paths) (auto split: option.splits simp: diff_entry_None_iff)


lemma map_of_index_diff_None_Deleted:
  "map_of (index_diff_None r) p = Some Deleted \<longleftrightarrow>
     map_of (index r) p \<noteq> None \<and> map_of (working_tree r) p = None"
  by (cases "map_of (index r) p"; cases "map_of (working_tree r) p")
     (simp_all add: index_diff_None_def map_of_diff_items in_tree_paths)

lemma index_diff_HEAD_cases:
  "(head r = None \<and> index_diff_HEAD r = Inl BadName)
   \<or> (\<exists>h. head r = Some h \<and>
          index_diff_HEAD r = Inr (diff_items (index r) h (tree_paths (index r @ h))))"
  by (cases "head r") (auto simp: index_diff_HEAD_def)

lemma in_tree_paths_append:
  "p \<in> set (tree_paths (a @ b)) \<longleftrightarrow> map_of a p \<noteq> None \<or> map_of b p \<noteq> None"
  by (auto simp: tree_paths_def map_of_eq_None_iff)

lemma fst_set_index_diff_HEAD:
  assumes "index_diff_HEAD r = Inr items"
  shows "\<exists>h. head r = Some h \<and> set (map fst items) = {p. map_of (index r) p \<noteq> map_of h p}"
proof -
  from assms obtain h where h: "head r = Some h"
    and items: "items = diff_items (index r) h (tree_paths (index r @ h))"
    using index_diff_HEAD_cases [of r] by auto
  have "set (map fst items) = {p. map_of (index r) p \<noteq> map_of h p}"
    unfolding items by (auto simp: fst_set_diff_items in_tree_paths_append)
  with h show ?thesis by blast
qed

lemma index_diff_HEAD_Nil_iff:
  assumes "head r = Some h"
  shows "index_diff_HEAD r = Inr [] \<longleftrightarrow> map_of (index r) = map_of h"
proof -
  have "index_diff_HEAD r = Inr [] \<longleftrightarrow> (\<forall>p. map_of (index r) p = map_of h p)"
    using assms
    by (auto simp: index_diff_HEAD_def diff_items_Nil_iff in_tree_paths_append)
  then show ?thesis by auto
qed

lemma map_of_index_diff_HEAD_Deleted:
  assumes "index_diff_HEAD r = Inr items" and "head r = Some h"
  shows "map_of items p = Some Deleted \<longleftrightarrow> map_of (index r) p \<noteq> None \<and> map_of h p = None"
proof -
  have "items = diff_items (index r) h (tree_paths (index r @ h))"
    using assms by (simp add: index_diff_HEAD_def)
  then show ?thesis
    by (cases "map_of (index r) p"; cases "map_of h p")
       (simp_all add: map_of_diff_items in_tree_paths_append)
qed



lemma git_add_fields [simp]:
  "working_tree (git_add p r) = working_tree r"
  "head (git_add p r) = head r"
  "commits (git_add p r) = commits r"
  "ctime_ms (git_add p r) = ctime_ms r"
  by (simp_all add: git_add_def)

lemma path_exists_git_add [simp]: "path_exists (git_add p r) q = path_exists r q"
  by (simp add: path_exists_def)

lemma add_paths_fields [simp]:
  "working_tree (add_paths ct ps r) = working_tree r"
  "head (add_paths ct ps r) = head r"
  "commits (add_paths ct ps r) = commits r"
  by (induction ps arbitrary: r) simp_all


lemma ensure_untracked_iff:
  "ensure_untracked r p =
     (if \<exists>f. prefix p f \<and> map_of (working_tree r) f \<noteq> None \<and> map_of (index r) f = None
      then Inl (DirtyRenkuDirectory r) else Inr ())"
proof -
  have "list_ex (\<lambda>f. prefix p f \<or> p = f) (untracked_files r) \<longleftrightarrow>
        (\<exists>f. prefix p f \<and> map_of (working_tree r) f \<noteq> None \<and> map_of (index r) f = None)"
    unfolding list_ex_iff set_untracked_files by auto
  then show ?thesis by (simp add: ensure_untracked_def)
qed

lemma ensure_unstaged_iff:
  "ensure_unstaged r p =
     (if \<exists>f h. prefix p f \<and> head r = Some h \<and> map_of (index r) f \<noteq> map_of h f
      then Inl (DirtyRenkuDirectory r) else Inr ())"
proof (cases "index_diff_HEAD r")
  case (Inl e)
  then have "head r = None"
    using index_diff_HEAD_cases [of r] by auto
  with Inl show ?thesis by (simp add: ensure_unstaged_def)
next
  case (Inr staged)
  then obtain h where h: "head r = Some h"
    and s: "set (map fst staged) = {p. map_of (index r) p \<noteq> map_of h p}"
    using fst_set_index_diff_HEAD by blast
  have "list_ex (\<lambda>f. prefix p f \<or> p = f) (map fst staged) \<longleftrightarrow>
        (\<exists>f. prefix p f \<and> map_of (index r) f \<noteq> map_of h f)"
    unfolding list_ex_iff s by auto
  with Inr h show ?thesis by (simp add: ensure_unstaged_def)
qed

lemma ensure_paths_iff:
  "ensure_paths r paths =
     (if \<exists>p \<in> set paths. \<exists>f. prefix p f \<and>
           ((map_of (working_tree r) f \<noteq> None \<and> map_of (index r) f = None)
            \<or> (\<exists>h. head r = Some h \<and> map_of (index r) f \<noteq> map_of h f))
      then Inl (DirtyRenkuDirectory r) else Inr ())"
proof (induction paths)
  case Nil
  then show ?case by simp
next
  case (Cons p ps)
  have "(\<exists>f. prefix p f \<and>
           ((map_of (working_tree r) f \<noteq> None \<and> map_of (index r) f = None)
            \<or> (\<exists>h. head r = Some h \<and> map_of (index r) f \<noteq> map_of h f))) \<longleftrightarrow>
      (\<exists>f. prefix p f \<and> map_of (working_tree r) f \<noteq> None \<and> map_of (index r) f = None)
      \<or> (\<exists>f h. prefix p f \<and> head r = Some h \<and> map_of (index r) f \<noteq> map_of h f)"
    by blast
  then show ?case
    by (simp add: Cons.IH ensure_untracked_iff ensure_unstaged_iff)
qed

text \<open>
  C2 (amended). With an explicit list of paths, before the wrapped operation runs: when a
  listed path is a prefix of (or equal to) an untracked file, or of a path whose index
  entry differs from HEAD, \<open>commit\<close> raises DirtyRenkuDirectory, built from the
  repository and not from the path, and the operation is not run; otherwise the check
  passes and the repository is as it was. Changes of tracked files in the working tree
  that are not staged are not looked at.
\<close>

theorem commit_paths_check:
  "(if \<exists>p \<in> set paths. \<exists>f. prefix p f \<and>
         ((map_of (working_tree r) f \<noteq> None \<and> map_of (index r) f = None)
          \<or> (\<exists>h. head r = Some h \<and> map_of (index r) f \<noteq> map_of h f))
    then commit env (CommitPaths paths) commit_empty raise_if_empty commit_message operation r
           = (Inl (DirtyRenkuDirectory r), r)
    else commit_enter env (CommitPaths paths) r = (Inr [], r))"
  using ensure_paths_iff [of r paths]
  by (auto simp: commit_def commit_enter_def)

lemmas git_eval =
  commit_def commit_enter_def commit_stage_def commit_finish_def diff_commit_only_def
  resolve_message_def index_diff_None_def index_diff_HEAD_def tree_paths_def
  untracked_files_def git_reset_def git_add_def git_add_all_def index_commit_def
  path_exists_def under_def ensure_untracked_def ensure_unstaged_def basename_def Let_def

theorem commit_paths_check_witness:
  "commit ex_env (CommitPaths [''.renku/datasets'']) True False PyNone op_create
       (ex_repo [(''README'', ''hello''), (''.renku/datasets/a'', ''a'')])
     = (Inl (DirtyRenkuDirectory (ex_repo [(''README'', ''hello''), (''.renku/datasets/a'', ''a'')])),
        ex_repo [(''README'', ''hello''), (''.renku/datasets/a'', ''a'')])
   \<and> commit_enter ex_env (CommitPaths [''.renku/datasets''])
       (ex_repo [(''README'', ''hello''), (''notes.txt'', ''old'')])
     = (Inr [], ex_repo [(''README'', ''hello''), (''notes.txt'', ''old'')])"
proof -
  let ?dirty = "ex_repo [(''README'', ''hello''), (''.renku/datasets/a'', ''a'')]"
  let ?clean = "ex_repo [(''README'', ''hello''), (''notes.txt'', ''old'')]"
  have "prefix ''.renku/datasets'' ''.renku/datasets/a''
        \<and> map_of (working_tree ?dirty) ''.renku/datasets/a'' \<noteq> None
        \<and> map_of (index ?dirty) ''.renku/datasets/a'' = None"
    by (simp add: ex_repo_def)
  then have d: "\<exists>p \<in> set [''.renku/datasets'']. \<exists>f. prefix p f \<and>
         ((map_of (working_tree ?dirty) f \<noteq> None \<and> map_of (index ?dirty) f = None)
          \<or> (\<exists>h. head ?dirty = Some h \<and> map_of (index ?dirty) f \<noteq> map_of h f))"
    by (intro bexI [of _ "''.renku/datasets''"] exI [of _ "''.renku/datasets/a''"]) simp_all
  have c: "\<not> (\<exists>p \<in> set [''.renku/datasets'']. \<exists>f. prefix p f \<and>
         ((map_of (working_tree ?clean) f \<noteq> None \<and> map_of (index ?clean) f = None)
          \<or> (\<exists>h. head ?clean = Some h \<and> map_of (index ?clean) f \<noteq> map_of h f)))"
    by (auto simp: ex_repo_def prefix_def)
  show ?thesis
    using commit_paths_check [of "[''.renku/datasets'']" ?dirty ex_env True False PyNone op_create]
      commit_paths_check [of "[''.renku/datasets'']" ?clean ex_env True False PyNone op_create]
    unfolding if_P [OF d] if_not_P [OF c] by simp
qed

text \<open>
  C2 as stated fails for a listed path that is modified in the working tree and not staged:
  the check passes, the operation runs and the change is committed.
\<close>

theorem commit_paths_counterexample:
  "index_diff_None (ex_repo [(''README'', ''changed'')]) = [(''README'', Modified)]
   \<and> commit_enter ex_env (CommitPaths [''README'']) (ex_repo [(''README'', ''changed'')])
       = (Inr [], ex_repo [(''README'', ''changed'')])
   \<and> fst (commit ex_env (CommitPaths [''README'']) True False (PyStr ''edit'') op_noop
             (ex_repo [(''README'', ''changed'')])) = Inr ()
   \<and> head (snd (commit ex_env (CommitPaths [''README'']) True False (PyStr ''edit'') op_noop
             (ex_repo [(''README'', ''changed'')]))) = Some [(''README'', ''changed'')]"
  by (simp add: git_eval ex_env_def ex_repo_def op_noop_def)

lemma commit_reaches_finish:
  assumes "commit_enter env commit_only r = (Inr diff_before, r1)"
    and "operation r1 = (Inr (), r2)"
    and "commit_stage commit_only diff_before r2 = Inr r3"
  shows "commit env commit_only commit_empty raise_if_empty commit_message operation r
           = commit_finish env commit_empty raise_if_empty commit_message r3"
  using assms by (simp add: commit_def)

text \<open>
  C3 (amended). When \<open>commit\<close> reaches the commit (the operation succeeded and the
  empty-commit policy does not stop it): a message that is truthy and not a string is
  rejected with CommitMessageEmpty; a non-empty string is the message; any falsy message
  (\<open>None\<close>, the empty string, an empty list, zero, \<open>False\<close>) is replaced by the base
  name of \<open>argv[0]\<close> followed by the other arguments with their credentials removed.
\<close>

theorem commit_message_rule:
  assumes "commit_enter env commit_only r = (Inr diff_before, r1)"
    and "operation r1 = (Inr (), r2)"
    and "commit_stage commit_only diff_before r2 = Inr r3"
    and "commit_empty \<or> (\<exists>item items. index_diff_HEAD r3 = Inr (item # items))"
  shows "commit env commit_only commit_empty raise_if_empty commit_message operation r =
     (if truthy commit_message \<and> \<not> is_str commit_message then (Inl CommitMessageEmpty, r3)
      else if truthy commit_message
      then (Inr (), index_commit (str_of commit_message) (''renku '' @ version env) r3)
      else (case argv env of
              [] \<Rightarrow> (Inl IndexError, r3)
            | argv0 # args \<Rightarrow>
                (Inr (), index_commit
                           (join_spaces (basename argv0 # map (remove_credentials env) args))
                           (''renku '' @ version env) r3)))"
proof -
  have "commit_finish env commit_empty raise_if_empty commit_message r3 =
      (case resolve_message env commit_message of
         Inl e \<Rightarrow> (Inl e, r3)
       | Inr m \<Rightarrow> (Inr (), index_commit m (''renku '' @ version env) r3))"
    using assms(4) by (auto simp: commit_finish_def)
  then show ?thesis
    unfolding commit_reaches_finish [where operation = operation, OF assms(1-3)]
    by (simp add: resolve_message_def split: list.splits)
qed

text \<open>
  C4. When the index after staging equals the tree of HEAD: with empty commits disabled,
  \<open>commit\<close> raises NothingToCommit if \<open>raise_if_empty\<close> is set, and otherwise returns
  without a commit, the list of commits and HEAD being those the operation left; with
  empty commits allowed (the default), a commit of the index is created, with the message
  the message rule gives (for the default message \<open>None\<close>, the command line).
\<close>

theorem empty_commit_policy:
  assumes "commit_enter env commit_only r = (Inr diff_before, r1)"
    and "operation r1 = (Inr (), r2)"
    and "commit_stage commit_only diff_before r2 = Inr r3"
    and "head r3 = Some h" and "map_of (index r3) = map_of h"
  shows "(\<not> commit_empty \<and> raise_if_empty \<longrightarrow>
            commit env commit_only commit_empty raise_if_empty commit_message operation r
              = (Inl NothingToCommit, r3))
       \<and> (\<not> commit_empty \<and> \<not> raise_if_empty \<longrightarrow>
            commit env commit_only commit_empty raise_if_empty commit_message operation r
              = (Inr (), r3))
       \<and> (commit_empty \<longrightarrow> (\<forall>m. resolve_message env commit_message = Inr m \<longrightarrow>
            commit env commit_only commit_empty raise_if_empty commit_message operation r
              = (Inr (), index_commit m (''renku '' @ version env) r3)
            \<and> commits (index_commit m (''renku '' @ version env) r3)
              = \<lparr>message = m, committer = ''renku '' @ version env, tree = index r3\<rparr>
                  # commits r3))
       \<and> commits r3 = commits r2 \<and> head r3 = head r2"
proof -
  have empty: "index_diff_HEAD r3 = Inr []"
    using assms(4,5) by (simp add: index_diff_HEAD_Nil_iff)
  have same: "commits r3 = commits r2 \<and> head r3 = head r2"
    using assms(3)
    by (auto simp: commit_stage_def git_add_all_def Let_def
        split: commit_only.splits sum.splits prod.splits if_splits)
  show ?thesis
    unfolding commit_reaches_finish [where operation = operation, OF assms(1-3)]
    using empty same by (auto simp: commit_finish_def index_commit_def)
qed

theorem commit_message_rule_witness:
  "commit ex_env CommitNone True False (PyBool True) op_noop (ex_repo [(''README'', ''hello'')])
     = (Inl CommitMessageEmpty, ex_repo [(''README'', ''hello'')])
   \<and> map message (commits (snd (commit ex_env CommitNone True False PyNone op_noop
                                    (ex_repo [(''README'', ''hello'')]))))
     = [''renku dataset add https://host/f'', ''init'']
   \<and> map message (commits (snd (commit ex_env CommitNone True False (PyStr ''my message'')
                                    op_noop (ex_repo [(''README'', ''hello'')]))))
     = [''my message'', ''init'']"
proof -
  let ?r = "ex_repo [(''README'', ''hello'')]"
  have enter: "commit_enter ex_env CommitNone ?r = (Inr [], ?r)"
    by (simp add: commit_enter_def)
  have op: "op_noop ?r = (Inr (), ?r)"
    by (simp add: op_noop_def)
  have stage: "commit_stage CommitNone [] ?r = Inr ?r"
    by (simp add: commit_stage_def git_add_all_def ex_repo_def)
  have ce: "True \<or> (\<exists>item items. index_diff_HEAD ?r = Inr (item # items))"
    by simp
  show ?thesis
    using commit_message_rule [where operation = op_noop, OF enter op stage ce,
        of False "PyBool True"]
      commit_message_rule [where operation = op_noop, OF enter op stage ce, of False PyNone]
      commit_message_rule [where operation = op_noop, OF enter op stage ce,
        of False "PyStr ''my message''"]
    by (simp add: index_commit_def ex_env_def ex_repo_def basename_def)
qed

text \<open>
  C3 as stated fails for the empty list, an empty value that is not a string: it is not
  rejected, and the commit is made with the message taken from the command line.
\<close>

theorem commit_message_counterexample:
  "\<not> truthy (PyList []) \<and> \<not> is_str (PyList [])
   \<and> fst (commit ex_env CommitNone True False (PyList []) op_noop
             (ex_repo [(''README'', ''hello'')])) = Inr ()
   \<and> map message (commits (snd (commit ex_env CommitNone True False (PyList []) op_noop
                                    (ex_repo [(''README'', ''hello'')]))))
     = [''renku dataset add https://host/f'', ''init'']"
  by (simp add: git_eval ex_env_def ex_repo_def op_noop_def)

theorem empty_commit_policy_witness:
  "commit ex_env CommitNone False True PyNone op_noop (ex_repo [(''README'', ''hello'')])
     = (Inl NothingToCommit, ex_repo [(''README'', ''hello'')])
   \<and> commit ex_env CommitNone False False PyNone op_noop (ex_repo [(''README'', ''hello'')])
     = (Inr (), ex_repo [(''README'', ''hello'')])
   \<and> map message (commits (snd (commit ex_env CommitNone True False PyNone op_noop
                                    (ex_repo [(''README'', ''hello'')]))))
     = [''renku dataset add https://host/f'', ''init'']"
proof -
  let ?r = "ex_repo [(''README'', ''hello'')]"
  have enter: "commit_enter ex_env CommitNone ?r = (Inr [], ?r)"
    by (simp add: commit_enter_def)
  have op: "op_noop ?r = (Inr (), ?r)"
    by (simp add: op_noop_def)
  have stage: "commit_stage CommitNone [] ?r = Inr ?r"
    by (simp add: commit_stage_def git_add_all_def ex_repo_def)
  have h: "head ?r = Some [(''README'', ''hello'')]"
    and i: "map_of (index ?r) = map_of [(''README'', ''hello'')]"
    by (simp_all add: ex_repo_def)
  have m: "resolve_message ex_env PyNone = Inr ''renku dataset add https://host/f''"
    by (simp add: resolve_message_def ex_env_def basename_def)
  show ?thesis
    using empty_commit_policy [where operation = op_noop, OF enter op stage h i,
        of False True PyNone]
      empty_commit_policy [where operation = op_noop, OF enter op stage h i,
        of False False PyNone]
      empty_commit_policy [where operation = op_noop, OF enter op stage h i,
        of True False PyNone]
      m
    by (simp add: ex_repo_def)
qed



lemma under_refl [simp]: "under p p"
  by (simp add: under_def)






text \<open>
  The empty difference. When the operation leaves nothing that differs apart from old
  untracked files, the list of paths is empty, \<open>not commit_only\<close> holds for it as it
  does for \<open>None\<close>, and \<open>git add --all\<close> stages the old untracked files too: here
  \<open>notes.txt\<close> ends up in the commit of an operation that did nothing.
\<close>

lemma diff_strategy_empty_difference:
  "commit_enter ex_env COMMIT_DIFF_STRATEGY
       (ex_repo [(''README'', ''hello''), (''notes.txt'', ''old'')])
     = (Inr [''notes.txt''], ex_repo [(''README'', ''hello''), (''notes.txt'', ''old'')])
   \<and> head (snd (commit ex_env COMMIT_DIFF_STRATEGY True False PyNone op_noop
                  (ex_repo [(''README'', ''hello''), (''notes.txt'', ''old'')])))
     = Some [(''README'', ''hello''), (''notes.txt'', ''old'')]"
  by (simp add: git_eval ex_env_def ex_repo_def op_noop_def)




end
